theory Spec2Isabelle
  imports Main "HOL-Library.AList"
begin

section \<open>Errors, paths and the file system\<close>

text \<open>
  The exceptions that \<open>furiosa/models/utils.py\<close> raises or lets through, as values.
  \<open>NotFoundInDVCRemote\<close>, \<open>VersionInfoNotFound\<close> and \<open>ArtifactNotFound\<close> are the
  classes of the package's \<open>errors\<close> module; the others are Python built-ins
  (\<open>ClientError\<close> stands for any failure of the HTTP library, \<open>YAMLError\<close> for any
  failure of the YAML loader). \<open>StopIteration\<close> is what \<open>next\<close> raises on an exhausted
  iterator; the event loop hands it to the awaiting caller as a RuntimeError.
\<close>

datatype error =
    TypeError | AttributeError | AssertionError | KeyError | IndexError | YAMLError
  | FileNotFoundError | IsADirectoryError | NotADirectoryError | FileExistsError
  | ClientError | StopIteration
  | NotFoundInDVCRemote "string list" string
  | VersionInfoNotFound
  | ArtifactNotFound string

text \<open>The errors of the package's own \<open>errors\<close> module.\<close>

fun typed_error :: "error \<Rightarrow> bool" where
  "typed_error (NotFoundInDVCRemote p h) = True"
| "typed_error VersionInfoNotFound = True"
| "typed_error (ArtifactNotFound m) = True"
| "typed_error e = False"

text \<open>
  A \<open>pathlib.Path\<close> is modelled as an absolute POSIX path: the list of its components,
  the empty list being the root \<open>/\<close>. \<open>path_parent\<close> is \<open>Path.parent\<close> (the root is
  its own parent), \<open>path_name\<close> is \<open>Path.name\<close> (empty for the root), \<open>path_str\<close> is
  \<open>str(path)\<close>, and \<open>joinpath p s\<close> is \<open>p / s\<close> for a string \<open>s\<close>: the string is split
  at \<open>/\<close>, empty and \<open>.\<close> components are dropped, and an absolute \<open>s\<close> replaces \<open>p\<close>.
\<close>

type_synonym path = "string list"

type_synonym bytes = string

definition path_parent :: "path \<Rightarrow> path" where
  "path_parent p = butlast p"

definition path_name :: "path \<Rightarrow> string" where
  "path_name p = (case rev p of [] \<Rightarrow> [] | c # cs \<Rightarrow> c)"

definition path_str :: "path \<Rightarrow> string" where
  "path_str p = (if p = [] then ''/'' else concat (map (\<lambda>c. CHR ''/'' # c) p))"

fun split_sep :: "char \<Rightarrow> string \<Rightarrow> string list" where
  "split_sep c [] = [[]]"
| "split_sep c (x # xs) =
     (if x = c then [] # split_sep c xs
      else (case split_sep c xs of [] \<Rightarrow> [[x]] | y # ys \<Rightarrow> (x # y) # ys))"

definition parts :: "string \<Rightarrow> string list" where
  "parts s = filter (\<lambda>t. t \<noteq> [] \<and> t \<noteq> ''.'') (split_sep CHR ''/'' s)"

definition joinpath :: "path \<Rightarrow> string \<Rightarrow> path" where
  "joinpath p s =
     (case s of [] \<Rightarrow> p
      | c # cs \<Rightarrow> if c = CHR ''/'' then parts s else p @ parts s)"

text \<open>
  The file system is an association list from paths to nodes, in directory order (the
  order in which a directory scan yields its entries). \<open>stat\<close> is what following a
  path finds; the root is always a directory. Symbolic links are not nodes: which paths
  are links, and to what, is a component of the environment below, consulted only at
  the two places where the source asks (\<open>is_symlink\<close>, \<open>readlink\<close>). Permissions are
  not modelled: every file is readable.
\<close>

datatype node = File bytes | Dir

type_synonym filesystem = "(path \<times> node) list"

definition stat :: "filesystem \<Rightarrow> path \<Rightarrow> node option" where
  "stat fs p = (if p = [] then Some Dir else map_of fs p)"

definition is_dir :: "filesystem \<Rightarrow> path \<Rightarrow> bool" where
  "is_dir fs p = (stat fs p = Some Dir)"

text \<open>
  Input and output are recorded: the state threaded through the resolver is the file
  system together with the sequence of operations performed so far.
\<close>

datatype event =
    Exists path | OpenRead path | HttpGet string | Mkdir path | OpenWrite path

record world =
  files :: filesystem
  events :: "event list"

definition emit :: "event \<Rightarrow> world \<Rightarrow> world" where
  "emit e w = w\<lparr>events := events w @ [e]\<rparr>"

definition path_exists :: "path \<Rightarrow> world \<Rightarrow> bool \<times> world" where
  "path_exists p w = (stat (files w) p \<noteq> None, emit (Exists p) w)"

definition open_read :: "path \<Rightarrow> world \<Rightarrow> (error + bytes) \<times> world" where
  "open_read p w =
     (case stat (files w) p of
        None \<Rightarrow> (Inl FileNotFoundError, emit (OpenRead p) w)
      | Some Dir \<Rightarrow> (Inl IsADirectoryError, emit (OpenRead p) w)
      | Some (File b) \<Rightarrow> (Inr b, emit (OpenRead p) w))"

section \<open>The environment of the process\<close>

text \<open>
  What the module reads from outside the repository, as parameters:
  \<^item> \<open>native_nux\<close>: the result of \<open>find_native_libs("nux")\<close>, reduced to the two strings
    that \<open>get_nux_version\<close> reads from the library (\<open>None\<close>: no library found);
  \<^item> \<open>DVC_REPO\<close>: the environment variable of that name;
  \<^item> \<open>cwd\<close>, \<open>DATA_DIRECTORY_BASE\<close>, \<open>CACHE_DIRECTORY_BASE\<close>: the working directory and
    the two module constants computed at import time;
  \<^item> \<open>symlinks\<close>: the symbolic links and their targets;
  \<^item> \<open>yaml_outs0\<close>: \<open>yaml.safe_load(text)["outs"][0]\<close>, a dictionary, or the error that
    loading or subscripting raised;
  \<^item> \<open>remote\<close>: the answer of the HTTP endpoint to a GET of a URL, status and body, or
    the error of the HTTP library.
\<close>

datatype pyval = PStr string | PInt int

record env =
  native_nux :: "(string \<times> string) option"
  DVC_REPO :: "string option"
  cwd :: path
  DATA_DIRECTORY_BASE :: path
  CACHE_DIRECTORY_BASE :: path
  symlinks :: "path \<Rightarrow> path option"
  yaml_outs0 :: "string \<Rightarrow> error + (string \<Rightarrow> pyval option)"
  remote :: "string \<Rightarrow> error + (nat \<times> bytes)"

section \<open>Version tag\<close>

record CompilerVersion =
  version :: string
  revision :: string

definition get_nux_version :: "env \<Rightarrow> CompilerVersion option" where
  "get_nux_version e =
     (case native_nux e of
        None \<Rightarrow> None
      | Some (v, h) \<Rightarrow> Some \<lparr>version = v, revision = h\<rparr>)"

definition version_info :: "env \<Rightarrow> string option" where
  "version_info e =
     (case get_nux_version e of
        None \<Rightarrow> None
      | Some vi \<Rightarrow> Some (version vi @ ''_'' @ revision vi))"

section \<open>String helper\<close>

definition endswith :: "string \<Rightarrow> string \<Rightarrow> bool" where
  "endswith base suffix =
     (length suffix \<le> length base \<and> drop (length base - length suffix) base = suffix)"

definition removesuffix :: "string \<Rightarrow> string \<Rightarrow> string" where
  "removesuffix base suffix =
     (if endswith base suffix then take (length base - length suffix) base else base)"

section \<open>The resolver: construction and descriptor parsing\<close>

function find_dvc_cache_directory :: "filesystem \<Rightarrow> path option \<Rightarrow> path option" where
  "find_dvc_cache_directory fs None = None"
| "find_dvc_cache_directory fs (Some p) =
     (if p = path_parent p then None
      else if is_dir fs (joinpath p ''.dvc'') then Some (joinpath (joinpath p ''.dvc'') ''cache'')
      else find_dvc_cache_directory fs (Some (path_parent p)))"
  by pat_completeness auto
termination
proof (relation "measure (\<lambda>(fs, po). case po of None \<Rightarrow> 0 | Some p \<Rightarrow> length p)")
  show "wf (measure (\<lambda>(fs, po). case po of None \<Rightarrow> 0 | Some p \<Rightarrow> length p))"
    by simp
next
  fix fs :: filesystem and p :: path
  assume "p \<noteq> path_parent p"
  then have "p \<noteq> []"
    by (auto simp: path_parent_def)
  then show "((fs, Some (path_parent p)), (fs, Some p))
      \<in> measure (\<lambda>(fs, po). case po of None \<Rightarrow> 0 | Some p \<Rightarrow> length p)"
    by (simp add: path_parent_def)
qed

definition parse_dvc_file ::
  "env \<Rightarrow> path \<Rightarrow> world \<Rightarrow> (error + string \<times> string \<times> pyval) \<times> world" where
  "parse_dvc_file e file_path w =
     (case open_read (joinpath (cwd e) (path_str file_path @ ''.dvc'')) w of
        (Inl err, w1) \<Rightarrow> (Inl err, w1)
      | (Inr text, w1) \<Rightarrow>
          (case yaml_outs0 e text of
             Inl err \<Rightarrow> (Inl err, w1)
           | Inr info_dict \<Rightarrow>
               (case info_dict ''md5'' of
                  None \<Rightarrow> (Inl KeyError, w1)
                | Some (PInt n) \<Rightarrow> (Inl TypeError, w1)
                | Some (PStr md5sum) \<Rightarrow>
                    (case info_dict ''size'' of
                       None \<Rightarrow> (Inl KeyError, w1)
                     | Some sz \<Rightarrow> (Inr (take 2 md5sum, drop 2 md5sum, sz), w1)))))"

definition get_url :: "string \<Rightarrow> string \<Rightarrow> string \<Rightarrow> string" where
  "get_url directory filename http_endpoint =
     http_endpoint @ ''/'' @ directory @ ''/'' @ filename"

definition DVC_PUBLIC_HTTP_ENDPOINT :: string where
  "DVC_PUBLIC_HTTP_ENDPOINT =
     ''https://furiosa-public-artifacts.s3-accelerate.amazonaws.com/furiosa-artifacts''"

section \<open>Writing to the file system\<close>

text \<open>
  \<open>mkdir_parents\<close> is \<open>Path.mkdir(parents=True, exist_ok=True)\<close>: an existing directory
  is accepted, an existing file is refused, a missing parent is created first.
  \<open>open_write\<close> is opening a file with mode \<open>wb\<close> and writing all of \<open>data\<close>.
\<close>

function mkdir_parents :: "filesystem \<Rightarrow> path \<Rightarrow> error + filesystem" where
  "mkdir_parents fs p =
     (case stat fs p of
        Some Dir \<Rightarrow> Inr fs
      | Some (File b) \<Rightarrow> Inl FileExistsError
      | None \<Rightarrow>
          (case stat fs (path_parent p) of
             Some Dir \<Rightarrow> Inr (AList.update p Dir fs)
           | Some (File b) \<Rightarrow> Inl NotADirectoryError
           | None \<Rightarrow>
               (case mkdir_parents fs (path_parent p) of
                  Inl err \<Rightarrow> Inl err
                | Inr fs' \<Rightarrow> Inr (AList.update p Dir fs'))))"
  by pat_completeness auto
termination
proof (relation "measure (\<lambda>(fs, p). length p)")
  show "wf (measure (\<lambda>(fs :: filesystem, p :: path). length p))"
    by simp
next
  fix fs :: filesystem and p :: path
  assume "stat fs p = None"
  then have "p \<noteq> []"
    by (auto simp: stat_def)
  then show "((fs, path_parent p), (fs, p)) \<in> measure (\<lambda>(fs, p). length p)"
    by (simp add: path_parent_def)
qed

definition mkdir :: "path \<Rightarrow> world \<Rightarrow> (error + unit) \<times> world" where
  "mkdir p w =
     (case mkdir_parents (files w) p of
        Inl err \<Rightarrow> (Inl err, emit (Mkdir p) w)
      | Inr fs' \<Rightarrow> (Inr (), emit (Mkdir p) (w\<lparr>files := fs'\<rparr>)))"

definition open_write :: "path \<Rightarrow> bytes \<Rightarrow> world \<Rightarrow> (error + unit) \<times> world" where
  "open_write p data w =
     (case stat (files w) p of
        Some Dir \<Rightarrow> (Inl IsADirectoryError, emit (OpenWrite p) w)
      | Some (File old) \<Rightarrow>
          (Inr (), emit (OpenWrite p) (w\<lparr>files := AList.update p (File data) (files w)\<rparr>))
      | None \<Rightarrow>
          if is_dir (files w) (path_parent p)
          then (Inr (), emit (OpenWrite p) (w\<lparr>files := AList.update p (File data) (files w)\<rparr>))
          else (Inl FileNotFoundError, emit (OpenWrite p) w))"

section \<open>The resolver: reading an artifact\<close>

record ArtifactResolver =
  uri :: path
  dvc_cache_path :: "path option"

text \<open>
  The constructor. The default argument of \<open>os.environ.get\<close> is evaluated first, so the
  upward walk always happens. A value of \<open>DVC_REPO\<close> is a \<open>str\<close>, which is not \<open>None\<close>
  and has no method \<open>is_symlink\<close>: the constructor raises AttributeError.
\<close>

definition ArtifactResolver_init :: "env \<Rightarrow> filesystem \<Rightarrow> path \<Rightarrow> error + ArtifactResolver" where
  "ArtifactResolver_init e fs u =
     (let found = find_dvc_cache_directory fs (Some (cwd e)) in
      case DVC_REPO e of
        Some s \<Rightarrow> Inl AttributeError
      | None \<Rightarrow>
          (case found of
             None \<Rightarrow> Inr \<lparr>uri = u, dvc_cache_path = None\<rparr>
           | Some d \<Rightarrow>
               (case symlinks e d of
                  None \<Rightarrow> Inr \<lparr>uri = u, dvc_cache_path = Some d\<rparr>
                | Some target \<Rightarrow> Inr \<lparr>uri = u, dvc_cache_path = Some target\<rparr>)))"

text \<open>
  The last part of \<open>ArtifactResolver.read\<close> (from the comment "Fetching from remote" to
  the end), which the method reaches from two places: no content-addressed store, or no
  entry for the hash in it. \<open>assert len(data) == size\<close> raises AssertionError when the
  lengths differ; the cache path is computed, its parent created and the file written
  only after it.
\<close>

definition fetch_from_remote ::
  "env \<Rightarrow> ArtifactResolver \<Rightarrow> string \<Rightarrow> string \<Rightarrow> pyval \<Rightarrow> world \<Rightarrow> (error + bytes) \<times> world" where
  "fetch_from_remote e self directory filename sz w =
     (let url = get_url directory filename DVC_PUBLIC_HTTP_ENDPOINT;
          w1 = emit (HttpGet url) w in
      case remote e url of
        Inl err \<Rightarrow> (Inl err, w1)
      | Inr (status, data) \<Rightarrow>
          if status \<noteq> 200
          then (Inl (NotFoundInDVCRemote (uri self) (directory @ filename)), w1)
          else if PInt (int (length data)) \<noteq> sz then (Inl AssertionError, w1)
          else
            (case version_info e of
               None \<Rightarrow> (Inl TypeError, w1)
             | Some v \<Rightarrow>
                 let caching_path =
                       joinpath (joinpath (CACHE_DIRECTORY_BASE e) v) (path_name (uri self)) in
                 (case mkdir (path_parent caching_path) w1 of
                    (Inl err, w2) \<Rightarrow> (Inl err, w2)
                  | (Inr u, w2) \<Rightarrow>
                      (case open_write caching_path data w2 of
                         (Inl err, w3) \<Rightarrow> (Inl err, w3)
                       | (Inr u', w3) \<Rightarrow> (Inr data, w3)))))"

text \<open>
  \<open>ArtifactResolver.read\<close>. \<open>CACHE_DIRECTORY_BASE / version_info()\<close> is the first thing
  evaluated: dividing a path by \<open>None\<close> raises TypeError.
\<close>

definition read :: "env \<Rightarrow> ArtifactResolver \<Rightarrow> world \<Rightarrow> (error + bytes) \<times> world" where
  "read e self w =
     (case version_info e of
        None \<Rightarrow> (Inl TypeError, w)
      | Some v \<Rightarrow>
          let local_cache_path =
                joinpath (joinpath (CACHE_DIRECTORY_BASE e) v) (path_name (uri self)) in
          (case path_exists local_cache_path w of
             (hit1, w1) \<Rightarrow>
               if hit1 then open_read local_cache_path w1
               else
                 (case path_exists (uri self) w1 of
                    (hit2, w2) \<Rightarrow>
                      if hit2 then open_read (uri self) w2
                      else
                        (case parse_dvc_file e (uri self) w2 of
                           (Inl err, w3) \<Rightarrow> (Inl err, w3)
                         | (Inr (directory, filename, sz), w3) \<Rightarrow>
                             (case dvc_cache_path self of
                                None \<Rightarrow> fetch_from_remote e self directory filename sz w3
                              | Some d \<Rightarrow>
                                  let cached = joinpath (joinpath d directory) filename in
                                  (case path_exists cached w3 of
                                     (hit3, w4) \<Rightarrow>
                                       if hit3 then
                                         (case open_read cached w4 of
                                            (Inl err, w5) \<Rightarrow> (Inl err, w5)
                                          | (Inr data, w5) \<Rightarrow>
                                              if PInt (int (length data)) = sz
                                              then (Inr data, w5)
                                              else (Inl AssertionError, w5))
                                       else fetch_from_remote e self directory filename sz w4))))))"

section \<open>Resolving a file by name and extension\<close>

definition EXT_CALIB_YAML :: string where "EXT_CALIB_YAML = ''calib_range.yaml''"
definition EXT_ENF :: string where "EXT_ENF = ''enf''"
definition EXT_ONNX :: string where "EXT_ONNX = ''onnx''"

definition GENERATED_EXTENSIONS :: "string list" where
  "GENERATED_EXTENSIONS = [EXT_ENF]"

text \<open>\<open>str.lower\<close>, on ASCII letters.\<close>

definition lower :: "string \<Rightarrow> string" where
  "lower s =
     map (\<lambda>c. if 65 \<le> (of_char c :: nat) \<and> (of_char c :: nat) \<le> 90
              then char_of (of_char c + (32 :: nat)) else c) s"

text \<open>\<open>f"{x}"\<close> for an optional string: \<open>None\<close> is formatted as the text \<open>None\<close>.\<close>

definition format_opt :: "string option \<Rightarrow> string" where
  "format_opt x = (case x of None \<Rightarrow> ''None'' | Some s \<Rightarrow> s)"

text \<open>
  \<open>dir.glob(f"*.{extension}.dvc")\<close>: the entries of directory \<open>dir\<close> whose name ends with
  \<open>.\<close>, the extension and \<open>.dvc\<close>, in directory order (for an extension without
  pattern characters or \<open>/\<close>). \<open>with_suffix_empty\<close> is \<open>Path.with_suffix('')\<close>, which
  drops the name's last suffix as \<open>PurePath.suffix\<close> computes it.
\<close>

definition glob_ext_dvc :: "filesystem \<Rightarrow> path \<Rightarrow> string \<Rightarrow> path list" where
  "glob_ext_dvc fs dir extension =
     filter (\<lambda>p. p \<noteq> [] \<and> path_parent p = dir
                \<and> endswith (path_name p) (''.'' @ extension @ ''.dvc''))
       (remdups (map fst fs))"

definition path_suffix :: "string \<Rightarrow> string" where
  "path_suffix nm =
     (let after = takeWhile (\<lambda>c. c \<noteq> CHR ''.'') (rev nm) in
      if length after = length nm then []
      else
        (let i = length nm - length after - 1 in
         if 0 < i \<and> i < length nm - 1 then drop i nm else []))"

definition with_suffix_empty :: "path \<Rightarrow> path" where
  "with_suffix_empty p =
     (let nm = path_name p; old_suffix = path_suffix nm in
      if old_suffix = [] then p
      else butlast p @ [take (length nm - length old_suffix) nm])"

text \<open>
  \<open>resolve_file\<close>. The f-string that builds \<open>generated_path_base\<close> always yields a
  string, so the value tested against \<open>None\<close> is always present. The search for the
  sidecar (\<open>next\<close> of the glob) stands before the \<open>try\<close>; the constructor and \<open>read\<close>
  stand inside it, and every exception they raise becomes \<open>ArtifactNotFound\<close>.
\<close>

definition resolve_file ::
  "env \<Rightarrow> string \<Rightarrow> string \<Rightarrow> string \<Rightarrow> world \<Rightarrow> (error + bytes) \<times> world" where
  "resolve_file e src_name extension generated_suffix w =
     (case
        (if lower extension \<in> set GENERATED_EXTENSIONS then
           (case Some (''generated/'' @ format_opt (version_info e)) of
              None \<Rightarrow> Inl VersionInfoNotFound
            | Some generated_path_base \<Rightarrow>
                let file_name = src_name @ generated_suffix @ ''.'' @ extension in
                Inr (joinpath (DATA_DIRECTORY_BASE e) (generated_path_base @ ''/'' @ file_name)))
         else
           (case glob_ext_dvc (files w) (joinpath (DATA_DIRECTORY_BASE e) src_name) extension of
              [] \<Rightarrow> Inl StopIteration
            | first # others \<Rightarrow> Inr (with_suffix_empty first)))
      of
        Inl err \<Rightarrow> (Inl err, w)
      | Inr full_path \<Rightarrow>
          (case ArtifactResolver_init e (files w) full_path of
             Inl err \<Rightarrow>
               (Inl (ArtifactNotFound (src_name @ '':'' @ path_str full_path @ ''.'' @ extension)), w)
           | Inr resolver \<Rightarrow>
               (case read e resolver w of
                  (Inl err, w1) \<Rightarrow>
                    (Inl (ArtifactNotFound
                            (src_name @ '':'' @ path_str full_path @ ''.'' @ extension)), w1)
                | (Inr data, w1) \<Rightarrow> (Inr data, w1))))"

section \<open>Loading all artifacts of a model\<close>

text \<open>
  \<open>asyncio.gather\<close> over one \<open>resolve_file\<close> per extension. The coroutines are run here
  one after the other, in the order of the extensions, each to its end (gather does not
  cancel the others when one fails); \<open>gather_results\<close> then raises the first error or
  returns the list of results. The dictionary comprehension over \<open>zip\<close> stores the pairs
  from left to right, a later pair replacing an earlier one with the same key.
\<close>

fun resolve_each :: "env \<Rightarrow> string \<Rightarrow> string list \<Rightarrow> world \<Rightarrow> (error + bytes) list \<times> world" where
  "resolve_each e nm [] w = ([], w)"
| "resolve_each e nm (ext # exts) w =
     (case resolve_file e nm ext ''_warboy_2pe'' w of
        (r, w1) \<Rightarrow> (case resolve_each e nm exts w1 of (rs, w2) \<Rightarrow> (r # rs, w2)))"

fun gather_results :: "(error + 'a) list \<Rightarrow> error + 'a list" where
  "gather_results [] = Inr []"
| "gather_results (Inl err # rs) = Inl err"
| "gather_results (Inr x # rs) =
     (case gather_results rs of Inl err \<Rightarrow> Inl err | Inr xs \<Rightarrow> Inr (x # xs))"

definition dict_of :: "(string \<times> bytes) list \<Rightarrow> (string \<Rightarrow> bytes option)" where
  "dict_of kvs = fold (\<lambda>(k, v) m. m(k \<mapsto> v)) kvs Map.empty"

definition load_artifacts_of ::
  "env \<Rightarrow> string \<Rightarrow> string list \<Rightarrow> world \<Rightarrow> (error + (string \<Rightarrow> bytes option)) \<times> world" where
  "load_artifacts_of e nm exts w =
     (case resolve_each e nm exts w of
        (rs, w1) \<Rightarrow>
          (case gather_results rs of
             Inl err \<Rightarrow> (Inl err, w1)
           | Inr binaries \<Rightarrow> (Inr (dict_of (zip exts binaries)), w1)))"

definition load_artifacts ::
  "env \<Rightarrow> string \<Rightarrow> world \<Rightarrow> (error + (string \<Rightarrow> bytes option)) \<times> world" where
  "load_artifacts e nm w = load_artifacts_of e nm [EXT_ONNX, EXT_CALIB_YAML, EXT_ENF] w"

section \<open>Vocabulary of the properties\<close>

text \<open>
  \<open>cache_entry_path e v u\<close> is the path of the version-namespaced cache entry for the
  artifact at \<open>u\<close> under version tag \<open>v\<close>, as \<open>read\<close> computes it (twice: for the lookup
  and for the write after a remote fetch). \<open>new_events w w'\<close> are the operations performed
  between the states \<open>w\<close> and \<open>w'\<close>; \<open>is_fetch\<close> and \<open>is_write\<close> pick the remote
  requests and the operations that change the file system.
\<close>

definition cache_entry_path :: "env \<Rightarrow> string \<Rightarrow> path \<Rightarrow> path" where
  "cache_entry_path e v u = joinpath (joinpath (CACHE_DIRECTORY_BASE e) v) (path_name u)"

definition new_events :: "world \<Rightarrow> world \<Rightarrow> event list" where
  "new_events w w' = drop (length (events w)) (events w')"

fun is_fetch :: "event \<Rightarrow> bool" where
  "is_fetch (HttpGet u) = True"
| "is_fetch ev = False"

fun is_write :: "event \<Rightarrow> bool" where
  "is_write (OpenWrite p) = True"
| "is_write (Mkdir p) = True"
| "is_write ev = False"

section \<open>A concrete installation\<close>

text \<open>
  A package installed under \<open>/pkg\<close> with one model \<open>m\<close>, whose ONNX file is described by
  the sidecar \<open>x.onnx.dvc\<close> (hash \<open>ab12cd34\<close>, size 4); the remote store holds the four
  bytes \<open>DATA\<close> under that hash. Variants: no native library (no version tag), a remote
  answer of three bytes, a cache that already holds an entry, a local content-addressed
  store whose entry has two bytes, the raw file next to its sidecar, and an installation
  with all three files of the model.
\<close>

definition ex_env :: env where
  "ex_env = \<lparr>native_nux = Some (''0.9.0'', ''abc123''), DVC_REPO = None, cwd = [''work''],
     DATA_DIRECTORY_BASE = [''pkg'', ''data''], CACHE_DIRECTORY_BASE = [''home'', ''cache''],
     symlinks = (\<lambda>p. None),
     yaml_outs0 = (\<lambda>t. if t = ''d1''
        then Inr [''md5'' \<mapsto> PStr ''ab12cd34'', ''size'' \<mapsto> PInt 4] else Inl YAMLError),
     remote = (\<lambda>u. if u = get_url ''ab'' ''12cd34'' DVC_PUBLIC_HTTP_ENDPOINT
        then Inr (200, ''DATA'') else Inr (404, []))\<rparr>"

definition ex_env_noversion :: env where
  "ex_env_noversion = ex_env\<lparr>native_nux := None\<rparr>"

definition ex_env_short_body :: env where
  "ex_env_short_body = ex_env\<lparr>remote := (\<lambda>u. Inr (200, ''DAT''))\<rparr>"

definition ex_files :: filesystem where
  "ex_files =
     [([''pkg''], Dir), ([''pkg'', ''data''], Dir), ([''pkg'', ''data'', ''m''], Dir),
      ([''pkg'', ''data'', ''m'', ''x.onnx.dvc''], File ''d1''),
      ([''home''], Dir), ([''work''], Dir)]"

definition ex_world :: world where
  "ex_world = \<lparr>files = ex_files, events = []\<rparr>"

definition ex_world_cached :: world where
  "ex_world_cached = \<lparr>files = ex_files @
     [([''home'', ''cache''], Dir), ([''home'', ''cache'', ''0.9.0_abc123''], Dir),
      ([''home'', ''cache'', ''0.9.0_abc123'', ''x.onnx''], File ''OLD'')], events = []\<rparr>"

definition ex_world_store :: world where
  "ex_world_store = \<lparr>files = ex_files @
     [([''work'', ''.dvc''], Dir), ([''work'', ''.dvc'', ''cache''], Dir),
      ([''work'', ''.dvc'', ''cache'', ''ab''], Dir),
      ([''work'', ''.dvc'', ''cache'', ''ab'', ''12cd34''], File ''XY'')], events = []\<rparr>"

definition ex_world_literal :: world where
  "ex_world_literal = \<lparr>files = ex_files @
     [([''pkg'', ''data'', ''m'', ''x.onnx''], File ''RAW'')], events = []\<rparr>"

definition ex_world_full :: world where
  "ex_world_full = \<lparr>files = ex_files @
     [([''pkg'', ''data'', ''m'', ''x.calib_range.yaml.dvc''], File ''d1''),
      ([''pkg'', ''data'', ''generated''], Dir),
      ([''pkg'', ''data'', ''generated'', ''0.9.0_abc123''], Dir),
      ([''pkg'', ''data'', ''generated'', ''0.9.0_abc123'', ''m_warboy_2pe.enf''], File ''ENF'')],
     events = []\<rparr>"

definition ex_resolver :: ArtifactResolver where
  "ex_resolver = \<lparr>uri = [''pkg'', ''data'', ''m'', ''x.onnx''], dvc_cache_path = None\<rparr>"

definition ex_resolver_store :: ArtifactResolver where
  "ex_resolver_store = \<lparr>uri = [''pkg'', ''data'', ''m'', ''x.onnx''],
     dvc_cache_path = Some [''work'', ''.dvc'', ''cache'']\<rparr>"

section \<open>Properties of the string helper\<close>

lemma endswith_iff: "endswith base suffix \<longleftrightarrow> (\<exists>pre. base = pre @ suffix)"
proof
  assume "endswith base suffix"
  then have "base = take (length base - length suffix) base @ suffix"
    by (metis append_take_drop_id endswith_def)
  then show "\<exists>pre. base = pre @ suffix" ..
next
  assume "\<exists>pre. base = pre @ suffix"
  then show "endswith base suffix"
    by (auto simp: endswith_def)
qed

text \<open>
  Claim C10. For all strings \<open>base\<close> and \<open>suffix\<close>: when \<open>base\<close> ends with \<open>suffix\<close>,
  \<open>removesuffix base suffix\<close> followed by \<open>suffix\<close> is \<open>base\<close> again; when it does not,
  \<open>removesuffix base suffix\<close> is \<open>base\<close> itself.
\<close>

theorem removesuffix_spec:
  "(endswith base suffix \<longrightarrow> removesuffix base suffix @ suffix = base) \<and>
   (\<not> endswith base suffix \<longrightarrow> removesuffix base suffix = base)"
proof -
  have "take (length base - length suffix) base @ suffix = base" if "endswith base suffix"
    using that by (metis append_take_drop_id endswith_def)
  then show ?thesis
    by (simp add: removesuffix_def)
qed

theorem removesuffix_spec_witness:
  "endswith ''resnet.onnx.dvc'' ''.dvc''
   \<and> removesuffix ''resnet.onnx.dvc'' ''.dvc'' @ ''.dvc'' = ''resnet.onnx.dvc''
   \<and> \<not> endswith ''resnet.onnx'' ''.dvc''
   \<and> removesuffix ''resnet.onnx'' ''.dvc'' = ''resnet.onnx''"
  using removesuffix_spec [of "''resnet.onnx.dvc''" "''.dvc''"]
    removesuffix_spec [of "''resnet.onnx''" "''.dvc''"]
  by (simp add: endswith_def)

section \<open>Evaluation of the concrete installation\<close>

lemmas ex_defs = ex_env_def ex_env_noversion_def ex_env_short_body_def ex_files_def ex_world_def
  ex_world_cached_def ex_world_store_def ex_world_literal_def ex_world_full_def ex_resolver_def
  ex_resolver_store_def

lemmas model_defs = path_parent_def path_name_def path_str_def parts_def joinpath_def stat_def
  is_dir_def emit_def path_exists_def open_read_def get_nux_version_def version_info_def
  endswith_def parse_dvc_file_def get_url_def DVC_PUBLIC_HTTP_ENDPOINT_def mkdir_def
  open_write_def ArtifactResolver_init_def fetch_from_remote_def read_def EXT_CALIB_YAML_def
  EXT_ENF_def EXT_ONNX_def GENERATED_EXTENSIONS_def lower_def format_opt_def glob_ext_dvc_def
  path_suffix_def with_suffix_empty_def resolve_file_def dict_of_def load_artifacts_of_def
  load_artifacts_def Let_def find_dvc_cache_directory.simps(2)

section \<open>The upward walk\<close>

lemma joinpath_dvc: "joinpath p ''.dvc'' = p @ [''.dvc'']"
  by (simp add: joinpath_def parts_def)

lemma joinpath_cache: "joinpath p ''cache'' = p @ [''cache'']"
  by (simp add: joinpath_def parts_def)

declare find_dvc_cache_directory.simps(2) [simp del]

lemma find_root: "find_dvc_cache_directory fs (Some []) = None"
  by (subst find_dvc_cache_directory.simps(2)) (simp add: path_parent_def)

lemma find_snoc:
  "find_dvc_cache_directory fs (Some (q @ [x])) =
     (if is_dir fs (q @ [x, ''.dvc'']) then Some (q @ [x, ''.dvc'', ''cache''])
      else find_dvc_cache_directory fs (Some q))"
proof -
  have up: "path_parent (q @ [x]) = q"
    by (simp add: path_parent_def)
  show ?thesis
    by (subst find_dvc_cache_directory.simps(2)) (simp add: up joinpath_dvc joinpath_cache)
qed

lemma find_Some:
  "find_dvc_cache_directory fs (Some p) = Some r \<Longrightarrow>
     \<exists>k. 0 < k \<and> k \<le> length p \<and> r = take k p @ [''.dvc'', ''cache'']
        \<and> is_dir fs (take k p @ [''.dvc''])
        \<and> (\<forall>j. k < j \<and> j \<le> length p \<longrightarrow> \<not> is_dir fs (take j p @ [''.dvc'']))"
proof (induction p rule: rev_induct)
  case Nil
  then show ?case by (simp add: find_root)
next
  case (snoc x q)
  show ?case
  proof (cases "is_dir fs (q @ [x, ''.dvc''])")
    case True
    with snoc.prems have "r = q @ [x, ''.dvc'', ''cache'']"
      by (simp add: find_snoc)
    with True show ?thesis
      by (intro exI [of _ "Suc (length q)"]) auto
  next
    case False
    with snoc.prems have "find_dvc_cache_directory fs (Some q) = Some r"
      by (simp add: find_snoc)
    from snoc.IH [OF this] obtain k where k: "0 < k" "k \<le> length q"
      "r = take k q @ [''.dvc'', ''cache'']" "is_dir fs (take k q @ [''.dvc''])"
      "\<forall>j. k < j \<and> j \<le> length q \<longrightarrow> \<not> is_dir fs (take j q @ [''.dvc''])"
      by blast
    have "\<not> is_dir fs (take j (q @ [x]) @ [''.dvc''])" if "k < j" "j \<le> length (q @ [x])" for j
    proof (cases "j \<le> length q")
      case True
      with k(5) that show ?thesis by simp
    next
      case False
      with that have "j = Suc (length q)" by simp
      with \<open>\<not> is_dir fs (q @ [x, ''.dvc''])\<close> show ?thesis by simp
    qed
    with k show ?thesis
      by (intro exI [of _ k]) simp
  qed
qed

lemma find_None:
  "find_dvc_cache_directory fs (Some p) = None \<longleftrightarrow>
     (\<forall>k. 0 < k \<and> k \<le> length p \<longrightarrow> \<not> is_dir fs (take k p @ [''.dvc'']))"
proof (induction p rule: rev_induct)
  case Nil
  then show ?case by (simp add: find_root)
next
  case (snoc x q)
  show ?case
  proof (cases "is_dir fs (q @ [x, ''.dvc''])")
    case True
    then have "is_dir fs (take (Suc (length q)) (q @ [x]) @ [''.dvc''])" by simp
    moreover have "0 < Suc (length q) \<and> Suc (length q) \<le> length (q @ [x])" by simp
    ultimately have "\<not> (\<forall>k. 0 < k \<and> k \<le> length (q @ [x]) \<longrightarrow> \<not> is_dir fs (take k (q @ [x]) @ [''.dvc'']))"
      by blast
    with True show ?thesis by (simp add: find_snoc)
  next
    case False
    have "(\<forall>k. 0 < k \<and> k \<le> length (q @ [x]) \<longrightarrow> \<not> is_dir fs (take k (q @ [x]) @ [''.dvc'']))
      \<longleftrightarrow> (\<forall>k. 0 < k \<and> k \<le> length q \<longrightarrow> \<not> is_dir fs (take k q @ [''.dvc'']))"
      (is "?L \<longleftrightarrow> ?R")
    proof
      assume l: ?L
      show ?R
      proof (intro allI impI)
        fix k assume "0 < k \<and> k \<le> length q"
        with l [rule_format, of k] show "\<not> is_dir fs (take k q @ [''.dvc''])" by simp
      qed
    next
      assume r: ?R
      show ?L
      proof (intro allI impI)
        fix k assume k: "0 < k \<and> k \<le> length (q @ [x])"
        show "\<not> is_dir fs (take k (q @ [x]) @ [''.dvc''])"
        proof (cases "k \<le> length q")
          case True
          with r [rule_format, of k] k show ?thesis by simp
        next
          case False
          with k have "k = Suc (length q)" by simp
          with \<open>\<not> is_dir fs (q @ [x, ''.dvc''])\<close> show ?thesis by simp
        qed
      qed
    qed
    with False snoc.IH show ?thesis by (simp add: find_snoc)
  qed
qed

text \<open>
  Claim C9. The upward walk is a total function (its termination is proved with its
  definition: each call is on a strictly shorter path). From any starting directory \<open>p\<close>
  it returns \<open>None\<close> exactly when no ancestor below the root (\<open>p\<close> included) holds a
  directory \<open>.dvc\<close>; otherwise it returns \<open>a/.dvc/cache\<close> for the nearest such ancestor
  \<open>a\<close>. Reaching the root is the value \<open>None\<close>, not an error.
\<close>

theorem find_dvc_cache_directory_walk:
  "(find_dvc_cache_directory fs None = None) \<and>
   (find_dvc_cache_directory fs (Some p) = None \<longleftrightarrow>
      (\<forall>k. 0 < k \<and> k \<le> length p \<longrightarrow> \<not> is_dir fs (joinpath (take k p) ''.dvc''))) \<and>
   (\<forall>r. find_dvc_cache_directory fs (Some p) = Some r \<longrightarrow>
      (\<exists>k. 0 < k \<and> k \<le> length p
         \<and> r = joinpath (joinpath (take k p) ''.dvc'') ''cache''
         \<and> is_dir fs (joinpath (take k p) ''.dvc'')
         \<and> (\<forall>j. k < j \<and> j \<le> length p \<longrightarrow> \<not> is_dir fs (joinpath (take j p) ''.dvc''))))"
  using find_None [of fs p] find_Some [of fs p]
  by (simp add: joinpath_dvc joinpath_cache)

theorem find_dvc_cache_directory_walk_witness:
  "find_dvc_cache_directory (files ex_world) (Some [''work'', ''sub'']) = None
   \<and> \<not> is_dir (files ex_world) (joinpath (take 1 [''work'', ''sub'']) ''.dvc'')
   \<and> find_dvc_cache_directory (files ex_world_store) (Some [''work'', ''sub''])
       = Some [''work'', ''.dvc'', ''cache'']
   \<and> is_dir (files ex_world_store) (joinpath (take 1 [''work'', ''sub'']) ''.dvc'')
   \<and> \<not> is_dir (files ex_world_store) (joinpath (take 2 [''work'', ''sub'']) ''.dvc'')"
  using find_dvc_cache_directory_walk [of "files ex_world" "[''work'', ''sub'']"]
    find_dvc_cache_directory_walk [of "files ex_world_store" "[''work'', ''sub'']"]
  by (simp add: ex_defs model_defs)

section \<open>Reading through the cache chain\<close>

lemma stat_emit [simp]: "files (emit ev w) = files w"
  by (simp add: emit_def)

lemma events_emit [simp]: "events (emit ev w) = events w @ [ev]"
  by (simp add: emit_def)

lemma read_cache_hit:
  assumes "version_info e = Some v"
    and "stat (files w) (cache_entry_path e v (uri self)) = Some (File data)"
  shows "read e self w =
    (Inr data, emit (OpenRead (cache_entry_path e v (uri self)))
                 (emit (Exists (cache_entry_path e v (uri self))) w))"
  using assms
  by (simp add: read_def path_exists_def open_read_def cache_entry_path_def Let_def)

lemma read_no_version:
  "version_info e = None \<Longrightarrow> read e self w = (Inl TypeError, w)"
  by (simp add: read_def)

lemma open_write_ok:
  assumes "open_write p data w = (Inr u, w')"
  shows "stat (files w') p = Some (File data)"
proof -
  from assms have ne: "p \<noteq> []"
    by (auto simp: open_write_def stat_def)
  from assms have "files w' = AList.update p (File data) (files w)"
    by (auto simp: open_write_def split: option.splits node.splits if_splits)
  with ne show ?thesis
    by (simp add: stat_def update_conv')
qed

lemma fetch_from_remote_ok:
  assumes "fetch_from_remote e self d f sz w = (Inr data, w')"
  shows "\<exists>v. version_info e = Some v
    \<and> stat (files w') (cache_entry_path e v (uri self)) = Some (File data)"
  using assms
  by (auto simp: fetch_from_remote_def Let_def cache_entry_path_def
      split: sum.splits prod.splits if_splits option.splits dest: open_write_ok)

lemma parse_dvc_file_world:
  "snd (parse_dvc_file e p w) = emit (OpenRead (joinpath (cwd e) (path_str p @ ''.dvc''))) w"
  by (simp add: parse_dvc_file_def open_read_def
      split: option.splits node.splits sum.splits pyval.splits)

lemma parse_dvc_file_emit:
  "fst (parse_dvc_file e p (emit ev w)) = fst (parse_dvc_file e p w)"
  by (simp add: parse_dvc_file_def open_read_def
      split: option.splits node.splits sum.splits pyval.splits)

lemma parse_dvc_file_result:
  assumes "parse_dvc_file e p w = (r, w')"
  shows "w' = emit (OpenRead (joinpath (cwd e) (path_str p @ ''.dvc''))) w"
  using parse_dvc_file_world [of e p w] assms by simp

lemma read_ok_cases:
  assumes "read e self w = (Inr data, w')"
  shows "filter is_fetch (new_events w w') = []
    \<or> (\<exists>v. version_info e = Some v
          \<and> stat (files w') (cache_entry_path e v (uri self)) = Some (File data))"
proof (cases "version_info e")
  case None
  with assms show ?thesis by (simp add: read_no_version)
next
  case (Some v)
  let ?cp = "joinpath (joinpath (CACHE_DIRECTORY_BASE e) v) (path_name (uri self))"
  let ?w2 = "emit (Exists (uri self)) (emit (Exists ?cp) w)"
  show ?thesis
  proof (cases "stat (files w) ?cp \<noteq> None")
    case True
    with assms Some show ?thesis
      by (auto simp: read_def Let_def path_exists_def open_read_def new_events_def
          split: option.splits node.splits)
  next
    case miss1: False
    show ?thesis
    proof (cases "stat (files w) (uri self) \<noteq> None")
      case True
      with assms Some miss1 show ?thesis
        by (auto simp: read_def Let_def path_exists_def open_read_def new_events_def
            split: option.splits node.splits)
    next
      case miss2: False
      obtain r w3 where r: "parse_dvc_file e (uri self) ?w2 = (r, w3)"
        by (cases "parse_dvc_file e (uri self) ?w2") auto
      from parse_dvc_file_result [OF r]
      have w3: "files w3 = files w" "events w3 = events w @ [Exists ?cp, Exists (uri self),
            OpenRead (joinpath (cwd e) (path_str (uri self) @ ''.dvc''))]"
        by simp_all
      show ?thesis
      proof (cases r)
        case (Inl err)
        with assms Some miss1 miss2 r show ?thesis
          by (simp add: read_def Let_def path_exists_def)
      next
        case (Inr t)
        obtain d f sz where t: "t = (d, f, sz)"
          by (cases t) auto
        show ?thesis
        proof (cases "dvc_cache_path self")
          case None
          with assms Some miss1 miss2 r Inr t
          have "fetch_from_remote e self d f sz w3 = (Inr data, w')"
            by (simp add: read_def Let_def path_exists_def)
          from fetch_from_remote_ok [OF this] Some show ?thesis
            by (simp add: cache_entry_path_def)
        next
          case (Some root)
          let ?cached = "joinpath (joinpath root d) f"
          show ?thesis
          proof (cases "stat (files w) ?cached \<noteq> None")
            case True
            with assms \<open>version_info e = Some v\<close> miss1 miss2 r Inr t Some w3
            show ?thesis
              by (auto simp: read_def Let_def path_exists_def open_read_def new_events_def
                  split: option.splits node.splits if_splits)
          next
            case False
            with assms \<open>version_info e = Some v\<close> miss1 miss2 r Inr t Some w3
            have "fetch_from_remote e self d f sz (emit (Exists ?cached) w3) = (Inr data, w')"
              by (simp add: read_def Let_def path_exists_def)
            from fetch_from_remote_ok [OF this] \<open>version_info e = Some v\<close> show ?thesis
              by (simp add: cache_entry_path_def)
          qed
        qed
      qed
    qed
  qed
qed

text \<open>
  Claim C5. When a resolution succeeds and performed a remote fetch, resolving the same
  reference again in the resulting state succeeds with the same bytes, performs no
  remote fetch and leaves the file system as it is: the cache entry written by the first
  resolution is hit.
\<close>

theorem read_twice_same_bytes_no_fetch:
  assumes "read e self w = (Inr data, w')"
    and "filter is_fetch (new_events w w') \<noteq> []"
  shows "\<exists>w''. read e self w' = (Inr data, w'')
    \<and> filter is_fetch (new_events w' w'') = []
    \<and> files w'' = files w'"
proof -
  from read_ok_cases [OF assms(1)] assms(2) obtain v where v: "version_info e = Some v"
    "stat (files w') (cache_entry_path e v (uri self)) = Some (File data)"
    by blast
  from read_cache_hit [OF this] show ?thesis
    by (simp add: new_events_def)
qed

theorem read_twice_same_bytes_no_fetch_witness:
  "read ex_env ex_resolver ex_world =
     (Inr ''DATA'', snd (read ex_env ex_resolver ex_world))
   \<and> filter is_fetch (new_events ex_world (snd (read ex_env ex_resolver ex_world))) \<noteq> []
   \<and> (\<exists>w''. read ex_env ex_resolver (snd (read ex_env ex_resolver ex_world)) = (Inr ''DATA'', w'')
        \<and> filter is_fetch (new_events (snd (read ex_env ex_resolver ex_world)) w'') = []
        \<and> files w'' = files (snd (read ex_env ex_resolver ex_world)))"
proof -
  have first: "read ex_env ex_resolver ex_world =
      (Inr ''DATA'', snd (read ex_env ex_resolver ex_world))"
    by (simp add: ex_defs model_defs)
  have fetched:
    "filter is_fetch (new_events ex_world (snd (read ex_env ex_resolver ex_world))) \<noteq> []"
    by (simp add: ex_defs model_defs new_events_def)
  from read_twice_same_bytes_no_fetch [OF first fetched] first fetched show ?thesis
    by blast
qed

text \<open>
  Claim C3. When a version tag is present and the version-namespaced cache path holds a
  file, resolution returns exactly the bytes of that file. The only operations performed
  are the existence check and the read of the cache path: no literal-path check, no
  descriptor read, no lookup in the content-addressed store, no remote request and no
  write. The statement holds for every remote store, whatever it holds.
\<close>

theorem read_cache_entry_wins:
  assumes "version_info e = Some v"
    and "stat (files w) (cache_entry_path e v (uri self)) = Some (File data)"
  shows "read e self w =
    (Inr data, w\<lparr>events := events w @ [Exists (cache_entry_path e v (uri self)),
                                      OpenRead (cache_entry_path e v (uri self))]\<rparr>)"
  using read_cache_hit [OF assms] by (simp add: emit_def)

theorem read_cache_entry_wins_witness:
  "version_info ex_env = Some ''0.9.0_abc123''
   \<and> stat (files ex_world_cached) (cache_entry_path ex_env ''0.9.0_abc123'' (uri ex_resolver))
       = Some (File ''OLD'')
   \<and> remote ex_env (get_url ''ab'' ''12cd34'' DVC_PUBLIC_HTTP_ENDPOINT) = Inr (200, ''DATA'')
   \<and> read ex_env ex_resolver ex_world_cached =
       (Inr ''OLD'', ex_world_cached\<lparr>events := events ex_world_cached @
          [Exists (cache_entry_path ex_env ''0.9.0_abc123'' (uri ex_resolver)),
           OpenRead (cache_entry_path ex_env ''0.9.0_abc123'' (uri ex_resolver))]\<rparr>)"
proof -
  have v: "version_info ex_env = Some ''0.9.0_abc123''"
    by (simp add: ex_defs model_defs)
  have hit: "stat (files ex_world_cached)
      (cache_entry_path ex_env ''0.9.0_abc123'' (uri ex_resolver)) = Some (File ''OLD'')"
    by (simp add: ex_defs model_defs cache_entry_path_def)
  have far: "remote ex_env (get_url ''ab'' ''12cd34'' DVC_PUBLIC_HTTP_ENDPOINT) = Inr (200, ''DATA'')"
    by (simp add: ex_defs)
  from read_cache_entry_wins [OF v hit] v hit far show ?thesis
    by blast
qed

section \<open>Descriptor parsing\<close>

text \<open>
  Claim C8. When the sidecar of \<open>file_path\<close> is a file whose first output entry has a
  string \<open>md5\<close> of at least two characters and a \<open>size\<close>, \<open>parse_dvc_file\<close> returns a
  directory that is the first two characters of the hash and a file name that is the
  rest: the two concatenated are the hash, and the directory has length 2.
\<close>

theorem parse_dvc_file_splits_hash:
  assumes "stat (files w) (joinpath (cwd e) (path_str file_path @ ''.dvc'')) = Some (File text)"
    and "yaml_outs0 e text = Inr info_dict"
    and "info_dict ''md5'' = Some (PStr md5sum)"
    and "info_dict ''size'' = Some sz"
    and "2 \<le> length md5sum"
  shows "\<exists>directory filename.
    fst (parse_dvc_file e file_path w) = Inr (directory, filename, sz)
    \<and> directory = take 2 md5sum \<and> filename = drop 2 md5sum
    \<and> directory @ filename = md5sum \<and> length directory = 2"
  using assms by (simp add: parse_dvc_file_def open_read_def)

theorem parse_dvc_file_splits_hash_witness:
  "stat (files ex_world) (joinpath (cwd ex_env) (path_str (uri ex_resolver) @ ''.dvc''))
      = Some (File ''d1'')
   \<and> 2 \<le> length ''ab12cd34''
   \<and> fst (parse_dvc_file ex_env (uri ex_resolver) ex_world) = Inr (''ab'', ''12cd34'', PInt 4)"
proof -
  have f: "stat (files ex_world) (joinpath (cwd ex_env) (path_str (uri ex_resolver) @ ''.dvc''))
      = Some (File ''d1'')"
    by (simp add: ex_defs model_defs)
  have y: "yaml_outs0 ex_env ''d1'' = Inr [''md5'' \<mapsto> PStr ''ab12cd34'', ''size'' \<mapsto> PInt 4]"
    by (simp add: ex_defs)
  have m: "[''md5'' \<mapsto> PStr ''ab12cd34'', ''size'' \<mapsto> PInt 4] ''md5'' = Some (PStr ''ab12cd34'')"
    by simp
  have s: "[''md5'' \<mapsto> PStr ''ab12cd34'', ''size'' \<mapsto> PInt 4] ''size'' = Some (PInt 4)"
    by simp
  have l: "2 \<le> length ''ab12cd34''"
    by simp
  from parse_dvc_file_splits_hash [OF f y m s l] f l show ?thesis
    by simp
qed

section \<open>No version tag\<close>

text \<open>
  Claim C1, as amended. When the version tag provider yields no tag, \<open>read\<close> does not
  skip the version-namespaced tier and go on: it fails at once, before any tier is
  consulted. No existence check, read, descriptor parse or remote request is performed
  and the file system is unchanged. (In the source the cache path is computed from the
  tag before anything else, and the remote tier needs the tag again to write the entry.)
\<close>

theorem read_without_version_fails:
  "version_info e = None \<Longrightarrow> isl (fst (read e self w)) \<and> snd (read e self w) = w"
  by (simp add: read_no_version)

theorem read_without_version_fails_witness:
  "version_info ex_env_noversion = None
   \<and> isl (fst (read ex_env_noversion ex_resolver ex_world_literal))
   \<and> snd (read ex_env_noversion ex_resolver ex_world_literal) = ex_world_literal"
proof -
  have n: "version_info ex_env_noversion = None"
    by (simp add: ex_defs model_defs)
  from read_without_version_fails [OF n] n show ?thesis
    by blast
qed

text \<open>
  The claim as stated fails: with no version tag and the raw file present at the literal
  path (so that the literal-path tier would return it), \<open>read\<close> raises and returns no
  bytes.
\<close>

theorem read_without_version_counterexample:
  "version_info ex_env_noversion = None
   \<and> stat (files ex_world_literal) (uri ex_resolver) = Some (File ''RAW'')
   \<and> read ex_env_noversion ex_resolver ex_world_literal = (Inl TypeError, ex_world_literal)"
  by (simp add: ex_defs model_defs)

section \<open>resolve_file\<close>

lemma resolve_file_never_VersionInfoNotFound:
  "fst (resolve_file e src_name extension generated_suffix w) \<noteq> Inl VersionInfoNotFound"
  by (simp add: resolve_file_def Let_def split: list.splits sum.splits prod.splits)

text \<open>
  Claim C6. The source tests \<open>generated_path_base\<close> against \<open>None\<close> and raises
  \<open>VersionInfoNotFound\<close>, but the tested value is a formatted string and is never \<open>None\<close>:
  without a version tag, \<open>resolve_file\<close> for the extension \<open>enf\<close> builds a path under
  \<open>generated/None\<close>, \<open>read\<close> raises on the missing tag, and the caller receives
  \<open>ArtifactNotFound\<close>. The lemma above shows that no input makes \<open>resolve_file\<close> fail
  with \<open>VersionInfoNotFound\<close>.
\<close>

theorem resolve_file_enf_without_version:
  "version_info ex_env_noversion = None
   \<and> resolve_file ex_env_noversion ''m'' EXT_ENF ''_warboy_2pe'' ex_world
       = (Inl (ArtifactNotFound ''m:/pkg/data/generated/None/m_warboy_2pe.enf.enf''), ex_world)"
  by (simp add: ex_defs model_defs)

text \<open>
  Claim C7. The errors of the constructor and of \<open>read\<close> are wrapped into
  \<open>ArtifactNotFound\<close>, but the search for the sidecar stands before the \<open>try\<close>: when the
  data directory of the model holds no sidecar for the extension, \<open>next\<close> raises
  \<open>StopIteration\<close>, which is not an error of the package's \<open>errors\<close> module.
\<close>

theorem resolve_file_without_sidecar:
  "glob_ext_dvc (files ex_world) (joinpath (DATA_DIRECTORY_BASE ex_env) ''m'') EXT_CALIB_YAML = []
   \<and> resolve_file ex_env ''m'' EXT_CALIB_YAML ''_warboy_2pe'' ex_world
       = (Inl StopIteration, ex_world)
   \<and> \<not> typed_error StopIteration"
  by (simp add: ex_defs model_defs)

section \<open>load_artifacts\<close>

lemma gather_results_isl: "isl (gather_results rs) \<longleftrightarrow> list_ex isl rs"
  by (induction rs rule: gather_results.induct) (auto split: sum.splits)

lemma gather_results_length: "gather_results rs = Inr xs \<Longrightarrow> length xs = length rs"
  by (induction rs arbitrary: xs rule: gather_results.induct) (auto split: sum.splits)

lemma resolve_each_length: "length (fst (resolve_each e nm exts w)) = length exts"
proof (induction exts arbitrary: w)
  case Nil
  show ?case by simp
next
  case (Cons ext exts)
  obtain r w1 where r: "resolve_file e nm ext ''_warboy_2pe'' w = (r, w1)"
    by (cases "resolve_file e nm ext ''_warboy_2pe'' w") auto
  obtain rs w2 where rs: "resolve_each e nm exts w1 = (rs, w2)"
    by (cases "resolve_each e nm exts w1") auto
  from Cons.IH [of w1] rs have "length rs = length exts"
    by simp
  with r rs show ?case
    by simp
qed

lemma dom_fold_upd:
  "dom (fold (\<lambda>(k, v) m. m(k \<mapsto> v)) kvs m0) = dom m0 \<union> fst ` set kvs"
  by (induction kvs arbitrary: m0) auto

lemma dom_dict_of: "dom (dict_of kvs) = fst ` set kvs"
  by (simp add: dict_of_def dom_fold_upd)

lemma load_artifacts_of_fails:
  "list_ex isl (fst (resolve_each e nm exts w)) \<Longrightarrow> isl (fst (load_artifacts_of e nm exts w))"
  by (auto simp: load_artifacts_of_def gather_results_isl [symmetric]
      split: prod.splits sum.splits)

lemma load_artifacts_of_keys:
  assumes "fst (load_artifacts_of e nm exts w) = Inr m"
  shows "dom m = set exts \<and> \<not> list_ex isl (fst (resolve_each e nm exts w))"
proof -
  obtain rs w1 where rs: "resolve_each e nm exts w = (rs, w1)"
    by (cases "resolve_each e nm exts w") auto
  with assms obtain binaries where b: "gather_results rs = Inr binaries"
    and m: "m = dict_of (zip exts binaries)"
    by (auto simp: load_artifacts_of_def split: sum.splits)
  from rs resolve_each_length [of e nm exts w] have "length rs = length exts"
    by simp
  with gather_results_length [OF b] have "length binaries = length exts"
    by simp
  then have "fst ` set (zip exts binaries) = set exts"
    by (metis map_fst_zip set_map)
  with m have "dom m = set exts"
    by (simp add: dom_dict_of)
  moreover from b gather_results_isl [of rs] rs have "\<not> list_ex isl (fst (resolve_each e nm exts w))"
    by simp
  ultimately show ?thesis by simp
qed

text \<open>
  Claim C4. For every model name and every sequence of extensions: when the resolution
  of some extension fails, loading fails as a whole (the result is an error, so there is
  no mapping); when loading returns a mapping, its keys are exactly the requested
  extensions and no resolution failed. \<open>load_artifacts\<close> is the instance for the three
  extensions of the source.
\<close>

theorem load_artifacts_all_or_nothing:
  "(list_ex isl (fst (resolve_each e nm exts w)) \<longrightarrow> isl (fst (load_artifacts_of e nm exts w)))
   \<and> (\<forall>m. fst (load_artifacts_of e nm exts w) = Inr m \<longrightarrow>
         dom m = set exts \<and> \<not> list_ex isl (fst (resolve_each e nm exts w)))
   \<and> (list_ex isl (fst (resolve_each e nm [EXT_ONNX, EXT_CALIB_YAML, EXT_ENF] w)) \<longrightarrow>
         isl (fst (load_artifacts e nm w)))
   \<and> (\<forall>m. fst (load_artifacts e nm w) = Inr m \<longrightarrow>
         dom m = {EXT_ONNX, EXT_CALIB_YAML, EXT_ENF})"
  using load_artifacts_of_fails [of e nm exts w] load_artifacts_of_keys [of e nm exts w]
    load_artifacts_of_fails [of e nm "[EXT_ONNX, EXT_CALIB_YAML, EXT_ENF]" w]
    load_artifacts_of_keys [of e nm "[EXT_ONNX, EXT_CALIB_YAML, EXT_ENF]" w]
  by (auto simp: load_artifacts_def)

theorem load_artifacts_all_or_nothing_witness:
  "list_ex isl (fst (resolve_each ex_env ''m'' [EXT_ONNX, EXT_CALIB_YAML, EXT_ENF] ex_world))
   \<and> isl (fst (load_artifacts ex_env ''m'' ex_world))
   \<and> fst (load_artifacts ex_env ''m'' ex_world_full)
       = Inr (projr (fst (load_artifacts ex_env ''m'' ex_world_full)))
   \<and> dom (projr (fst (load_artifacts ex_env ''m'' ex_world_full)))
       = {EXT_ONNX, EXT_CALIB_YAML, EXT_ENF}"
proof -
  have failing:
    "list_ex isl (fst (resolve_each ex_env ''m'' [EXT_ONNX, EXT_CALIB_YAML, EXT_ENF] ex_world))"
    by (simp add: ex_defs model_defs)
  have "\<not> isl (fst (load_artifacts ex_env ''m'' ex_world_full))"
    by (simp add: ex_defs model_defs)
  then have loaded: "fst (load_artifacts ex_env ''m'' ex_world_full)
      = Inr (projr (fst (load_artifacts ex_env ''m'' ex_world_full)))"
    by (cases "fst (load_artifacts ex_env ''m'' ex_world_full)") auto
  from load_artifacts_all_or_nothing [of ex_env "''m''" "[]" ex_world] failing
  have "isl (fst (load_artifacts ex_env ''m'' ex_world))"
    by blast
  moreover from load_artifacts_all_or_nothing [of ex_env "''m''" "[]" ex_world_full] loaded
  have "dom (projr (fst (load_artifacts ex_env ''m'' ex_world_full)))
      = {EXT_ONNX, EXT_CALIB_YAML, EXT_ENF}"
    by blast
  ultimately show ?thesis
    using failing loaded by blast
qed

section \<open>Integrity\<close>

lemma fetch_from_remote_mismatch:
  assumes "remote e (get_url d f DVC_PUBLIC_HTTP_ENDPOINT) = Inr (200, data)"
    and "PInt (int (length data)) \<noteq> sz"
  shows "fetch_from_remote e self d f sz w =
    (Inl AssertionError, emit (HttpGet (get_url d f DVC_PUBLIC_HTTP_ENDPOINT)) w)"
  using assms by (simp add: fetch_from_remote_def Let_def)

lemma parse_dvc_file_after_misses:
  assumes "fst (parse_dvc_file e p w) = Inr t"
  shows "parse_dvc_file e p (emit ev2 (emit ev1 w)) =
    (Inr t, emit (OpenRead (joinpath (cwd e) (path_str p @ ''.dvc''))) (emit ev2 (emit ev1 w)))"
proof -
  have "fst (parse_dvc_file e p (emit ev2 (emit ev1 w))) = Inr t"
    using assms by (simp add: parse_dvc_file_emit)
  moreover have "snd (parse_dvc_file e p (emit ev2 (emit ev1 w))) =
      emit (OpenRead (joinpath (cwd e) (path_str p @ ''.dvc''))) (emit ev2 (emit ev1 w))"
    by (rule parse_dvc_file_world)
  ultimately show ?thesis
    by (metis prod.collapse)
qed

lemma read_store_mismatch:
  assumes "version_info e = Some v"
    and "stat (files w) (cache_entry_path e v (uri self)) = None"
    and "stat (files w) (uri self) = None"
    and "fst (parse_dvc_file e (uri self) w) = Inr (directory, filename, sz)"
    and "dvc_cache_path self = Some root"
    and "stat (files w) (joinpath (joinpath root directory) filename) = Some (File data)"
    and "PInt (int (length data)) \<noteq> sz"
  shows "fst (read e self w) = Inl AssertionError \<and> files (snd (read e self w)) = files w"
  using assms(1-3,5-7) parse_dvc_file_after_misses [OF assms(4)]
  by (simp add: read_def Let_def path_exists_def open_read_def cache_entry_path_def)

lemma read_remote_mismatch:
  assumes "version_info e = Some v"
    and "stat (files w) (cache_entry_path e v (uri self)) = None"
    and "stat (files w) (uri self) = None"
    and "fst (parse_dvc_file e (uri self) w) = Inr (directory, filename, sz)"
    and "dvc_cache_path self = None
      \<or> (\<exists>root. dvc_cache_path self = Some root
            \<and> stat (files w) (joinpath (joinpath root directory) filename) = None)"
    and "remote e (get_url directory filename DVC_PUBLIC_HTTP_ENDPOINT) = Inr (200, data)"
    and "PInt (int (length data)) \<noteq> sz"
  shows "fst (read e self w) = Inl AssertionError \<and> files (snd (read e self w)) = files w
    \<and> filter is_write (new_events w (snd (read e self w))) = []"
  using assms(1-3,5) parse_dvc_file_after_misses [OF assms(4)]
    fetch_from_remote_mismatch [OF assms(6,7)]
  by (auto simp: read_def Let_def path_exists_def cache_entry_path_def new_events_def)

text \<open>
  Claim C2. Let the version-namespaced cache entry and the literal path be absent and the
  descriptor declare \<open>sz\<close>. When the content-addressed store holds a file for the hash
  whose length differs from \<open>sz\<close>, \<open>read\<close> fails with the assertion error of
  \<open>assert len(data) == size\<close> (the integrity mismatch) and the file system is unchanged.
  When the store is absent or has no file for the hash and the remote endpoint answers
  200 with a body whose length differs from \<open>sz\<close>, \<open>read\<close> fails with the same error,
  the file system is unchanged, the cache path still does not exist and no directory
  creation or file write was attempted.
\<close>

theorem read_size_mismatch:
  assumes "version_info e = Some v"
    and "stat (files w) (cache_entry_path e v (uri self)) = None"
    and "stat (files w) (uri self) = None"
    and "fst (parse_dvc_file e (uri self) w) = Inr (directory, filename, sz)"
    and "PInt (int (length data)) \<noteq> sz"
  shows "(\<forall>root. dvc_cache_path self = Some root
            \<and> stat (files w) (joinpath (joinpath root directory) filename) = Some (File data)
          \<longrightarrow> fst (read e self w) = Inl AssertionError
            \<and> files (snd (read e self w)) = files w)
    \<and> ((dvc_cache_path self = None
          \<or> (\<exists>root. dvc_cache_path self = Some root
                \<and> stat (files w) (joinpath (joinpath root directory) filename) = None))
        \<and> remote e (get_url directory filename DVC_PUBLIC_HTTP_ENDPOINT) = Inr (200, data)
          \<longrightarrow> fst (read e self w) = Inl AssertionError
            \<and> files (snd (read e self w)) = files w
            \<and> stat (files (snd (read e self w))) (cache_entry_path e v (uri self)) = None
            \<and> filter is_write (new_events w (snd (read e self w))) = [])"
proof (intro conjI allI impI)
  fix root
  assume "dvc_cache_path self = Some root
    \<and> stat (files w) (joinpath (joinpath root directory) filename) = Some (File data)"
  with read_store_mismatch [OF assms(1-4) _ _ assms(5)]
  show "fst (read e self w) = Inl AssertionError" "files (snd (read e self w)) = files w"
    by blast+
next
  assume far: "(dvc_cache_path self = None
      \<or> (\<exists>root. dvc_cache_path self = Some root
            \<and> stat (files w) (joinpath (joinpath root directory) filename) = None))
    \<and> remote e (get_url directory filename DVC_PUBLIC_HTTP_ENDPOINT) = Inr (200, data)"
  from read_remote_mismatch [OF assms(1-4) _ _ assms(5)] far
  have r: "fst (read e self w) = Inl AssertionError \<and> files (snd (read e self w)) = files w
    \<and> filter is_write (new_events w (snd (read e self w))) = []"
    by blast
  then show "fst (read e self w) = Inl AssertionError" "files (snd (read e self w)) = files w"
    "filter is_write (new_events w (snd (read e self w))) = []"
    by blast+
  from r assms(2) show "stat (files (snd (read e self w))) (cache_entry_path e v (uri self)) = None"
    by simp
qed

theorem read_size_mismatch_witness:
  "fst (parse_dvc_file ex_env (uri ex_resolver_store) ex_world_store)
      = Inr (''ab'', ''12cd34'', PInt 4)
   \<and> stat (files ex_world_store) (joinpath (joinpath [''work'', ''.dvc'', ''cache''] ''ab'') ''12cd34'')
      = Some (File ''XY'')
   \<and> fst (read ex_env ex_resolver_store ex_world_store) = Inl AssertionError
   \<and> files (snd (read ex_env ex_resolver_store ex_world_store)) = files ex_world_store
   \<and> remote ex_env_short_body (get_url ''ab'' ''12cd34'' DVC_PUBLIC_HTTP_ENDPOINT)
      = Inr (200, ''DAT'')
   \<and> fst (read ex_env_short_body ex_resolver ex_world) = Inl AssertionError
   \<and> files (snd (read ex_env_short_body ex_resolver ex_world)) = files ex_world
   \<and> stat (files (snd (read ex_env_short_body ex_resolver ex_world)))
        (cache_entry_path ex_env_short_body ''0.9.0_abc123'' (uri ex_resolver)) = None
   \<and> filter is_write (new_events ex_world (snd (read ex_env_short_body ex_resolver ex_world))) = []"
proof -
  have v: "version_info ex_env = Some ''0.9.0_abc123''"
    by (simp add: ex_defs model_defs)
  have m1: "stat (files ex_world_store)
      (cache_entry_path ex_env ''0.9.0_abc123'' (uri ex_resolver_store)) = None"
    by (simp add: ex_defs model_defs cache_entry_path_def)
  have m2: "stat (files ex_world_store) (uri ex_resolver_store) = None"
    by (simp add: ex_defs model_defs)
  have d: "fst (parse_dvc_file ex_env (uri ex_resolver_store) ex_world_store)
      = Inr (''ab'', ''12cd34'', PInt 4)"
    by (simp add: ex_defs model_defs)
  have two: "PInt (int (length ''XY'')) \<noteq> PInt 4"
    by simp
  have root: "dvc_cache_path ex_resolver_store = Some [''work'', ''.dvc'', ''cache'']"
    by (simp add: ex_defs)
  have hit: "stat (files ex_world_store)
      (joinpath (joinpath [''work'', ''.dvc'', ''cache''] ''ab'') ''12cd34'') = Some (File ''XY'')"
    by (simp add: ex_defs model_defs)
  have v': "version_info ex_env_short_body = Some ''0.9.0_abc123''"
    by (simp add: ex_defs model_defs)
  have m1': "stat (files ex_world)
      (cache_entry_path ex_env_short_body ''0.9.0_abc123'' (uri ex_resolver)) = None"
    by (simp add: ex_defs model_defs cache_entry_path_def)
  have m2': "stat (files ex_world) (uri ex_resolver) = None"
    by (simp add: ex_defs model_defs)
  have d': "fst (parse_dvc_file ex_env_short_body (uri ex_resolver) ex_world)
      = Inr (''ab'', ''12cd34'', PInt 4)"
    by (simp add: ex_defs model_defs)
  have three: "PInt (int (length ''DAT'')) \<noteq> PInt 4"
    by simp
  have none: "dvc_cache_path ex_resolver = None"
    by (simp add: ex_defs)
  have far: "remote ex_env_short_body (get_url ''ab'' ''12cd34'' DVC_PUBLIC_HTTP_ENDPOINT)
      = Inr (200, ''DAT'')"
    by (simp add: ex_defs)
  from read_size_mismatch [OF v m1 m2 d two] root hit
  have a: "fst (read ex_env ex_resolver_store ex_world_store) = Inl AssertionError
    \<and> files (snd (read ex_env ex_resolver_store ex_world_store)) = files ex_world_store"
    by blast
  from read_size_mismatch [OF v' m1' m2' d' three] none far
  have b: "fst (read ex_env_short_body ex_resolver ex_world) = Inl AssertionError
    \<and> files (snd (read ex_env_short_body ex_resolver ex_world)) = files ex_world
    \<and> stat (files (snd (read ex_env_short_body ex_resolver ex_world)))
        (cache_entry_path ex_env_short_body ''0.9.0_abc123'' (uri ex_resolver)) = None
    \<and> filter is_write (new_events ex_world (snd (read ex_env_short_body ex_resolver ex_world))) = []"
    by blast
  from a b d hit far show ?thesis
    by blast
qed

end
